theory Spec2Isabelle
  imports Complex_Main
begin

section \<open>Conventions\<close>

text \<open>
  The development embeds \<^verbatim>\<open>hr_app/utils/cv_parser.py\<close> (classes \<^verbatim>\<open>CVParser\<close> and
  \<^verbatim>\<open>CVAnalyzer\<close>) and the sequencing of \<^verbatim>\<open>process_cv\<close> in \<^verbatim>\<open>hr_app/views.py\<close>.

  \<^item> A Python \<^verbatim>\<open>str\<close> is a \<open>string\<close>; a \<open>char\<close> stands for the code point of the same
    number, so the model covers texts whose code points are below 256.
  \<^item> A Python \<^verbatim>\<open>float\<close> is a \<open>rat\<close>: the values that occur (digit strings read by
    \<^verbatim>\<open>float\<close>, halves of sums, twelfths, small integers) are compared exactly; rounding,
    infinities and NaN are outside the model.
  \<^item> A Python list is a HOL list, \<^verbatim>\<open>x in xs\<close> is \<open>x \<in> set xs\<close>.
\<close>

section \<open>Characters and strings of Python\<close>

text \<open>
  The character classes are those of Python 3 on the code points below 256:
  \<^verbatim>\<open>\d\<close> is a decimal digit, \<^verbatim>\<open>\s\<close> and \<^verbatim>\<open>str.strip\<close> use the white space of
  \<^verbatim>\<open>str.isspace\<close>, \<^verbatim>\<open>\w\<close> is an alphanumeric character or the underscore, and
  \<^verbatim>\<open>str.lower\<close> moves an upper-case letter 32 code points up.
\<close>

definition char_range :: "nat \<Rightarrow> nat \<Rightarrow> char \<Rightarrow> bool" where
  "char_range lo hi c = (lo \<le> of_char c \<and> of_char c \<le> hi)"

definition is_digit :: "char \<Rightarrow> bool" where
  "is_digit c = char_range 0x30 0x39 c"

definition is_space :: "char \<Rightarrow> bool" where
  "is_space c =
     (char_range 0x09 0x0D c \<or> char_range 0x1C 0x20 c \<or> c = CHR 0x85 \<or> c = CHR 0xA0)"

definition is_upper :: "char \<Rightarrow> bool" where
  "is_upper c = (char_range 0x41 0x5A c \<or> char_range 0xC0 0xD6 c \<or> char_range 0xD8 0xDE c)"

definition is_lower :: "char \<Rightarrow> bool" where
  "is_lower c =
     (char_range 0x61 0x7A c \<or> c = CHR 0xAA \<or> c = CHR 0xB5 \<or> c = CHR 0xBA \<or>
      char_range 0xDF 0xF6 c \<or> char_range 0xF8 0xFF c)"

definition is_word :: "char \<Rightarrow> bool" where
  "is_word c =
     (char_range 0x30 0x39 c \<or> char_range 0x41 0x5A c \<or> c = CHR ''_'' \<or>
      char_range 0x61 0x7A c \<or>
      c = CHR 0xAA \<or> c = CHR 0xB2 \<or> c = CHR 0xB3 \<or> c = CHR 0xB5 \<or> c = CHR 0xB9 \<or>
      c = CHR 0xBA \<or> c = CHR 0xBC \<or> c = CHR 0xBD \<or> c = CHR 0xBE \<or>
      char_range 0xC0 0xD6 c \<or> char_range 0xD8 0xF6 c \<or> char_range 0xF8 0xFF c)"

definition ascii_letter :: "char \<Rightarrow> bool" where
  "ascii_letter c = (char_range 0x41 0x5A c \<or> char_range 0x61 0x7A c)"

definition lower_char :: "char \<Rightarrow> char" where
  "lower_char c = (if is_upper c then char_of (of_char c + (32::nat)) else c)"

text \<open>
  The same classes read off the bits of a character (\<open>b0\<close> is the lowest bit). These
  equations replace the arithmetic on code points when a term is evaluated.
\<close>

lemma is_digit_bits [code]:
  "is_digit (Char b0 b1 b2 b3 b4 b5 b6 b7) =
     (\<not> b7 \<and> (\<not> b6 \<and> (b5 \<and> (b4 \<and> (if b3 then (\<not> b2
     \<and> \<not> b1) else True)))))"
  by (cases b7; cases b6; cases b5; cases b4; cases b3; cases b2; cases b1; cases b0;
      simp add: is_digit_def char_range_def)

lemma is_space_bits [code]:
  "is_space (Char b0 b1 b2 b3 b4 b5 b6 b7) =
     (if b7 then (\<not> b6 \<and> (if b5 then (\<not> b4 \<and> (\<not> b3 \<and> (\<not>
     b2 \<and> (\<not> b1 \<and> \<not> b0)))) else (\<not> b4 \<and> (\<not> b3 \<and> (b2
     \<and> (\<not> b1 \<and> b0)))))) else (\<not> b6 \<and> (if b5 then (\<not> b4 \<and>
     (\<not> b3 \<and> (\<not> b2 \<and> (\<not> b1 \<and> \<not> b0)))) else (if b4 then
     (b3 \<and> b2) else (b3 \<and> (if b2 then \<not> b1 else (b1 \<or> b0)))))))"
  by (cases b7; cases b6; cases b5; cases b4; cases b3; cases b2; cases b1; cases b0;
      simp add: is_space_def char_range_def)

lemma is_upper_bits [code]:
  "is_upper (Char b0 b1 b2 b3 b4 b5 b6 b7) =
     (if b7 then (b6 \<and> (\<not> b5 \<and> (if b4 then (if b3 then (if b2 then (if b1
     then \<not> b0 else True) else True) else (if b2 then (if b1 then \<not> b0 else True)
     else True)) else True))) else (b6 \<and> (\<not> b5 \<and> (if b4 then (if b3 then
     (\<not> b2 \<and> (if b1 then \<not> b0 else True)) else True) else (b3 \<or> (b2
     \<or> (b1 \<or> b0)))))))"
  by (cases b7; cases b6; cases b5; cases b4; cases b3; cases b2; cases b1; cases b0;
      simp add: is_upper_def char_range_def)

lemma is_lower_bits [code]:
  "is_lower (Char b0 b1 b2 b3 b4 b5 b6 b7) =
     (if b7 then (if b6 then (if b5 then (if b4 then (b3 \<or> (if b2 then (if b1 then
     \<not> b0 else True) else True)) else True) else (b4 \<and> (b3 \<and> (b2 \<and> (b1
     \<and> b0))))) else (b5 \<and> (if b4 then (if b3 then (\<not> b2 \<and> (b1 \<and>
     \<not> b0)) else (b2 \<and> (\<not> b1 \<and> b0))) else (b3 \<and> (\<not> b2 \<and>
     (b1 \<and> \<not> b0)))))) else (b6 \<and> (b5 \<and> (if b4 then (if b3 then (\<not>
     b2 \<and> (if b1 then \<not> b0 else True)) else True) else (b3 \<or> (b2 \<or> (b1
     \<or> b0)))))))"
  by (cases b7; cases b6; cases b5; cases b4; cases b3; cases b2; cases b1; cases b0;
      simp add: is_lower_def char_range_def)

lemma is_word_bits [code]:
  "is_word (Char b0 b1 b2 b3 b4 b5 b6 b7) =
     (if b7 then (if b6 then (if b5 then (if b4 then (b3 \<or> (if b2 then (if b1 then
     \<not> b0 else True) else True)) else True) else (if b4 then (b3 \<or> (if b2 then (if
     b1 then \<not> b0 else True) else True)) else True)) else (b5 \<and> (if b4 then (if
     b3 then (if b2 then (if b1 then \<not> b0 else True) else (if b1 then \<not> b0 else
     b0)) else (if b2 then (\<not> b1 \<and> b0) else b1)) else (b3 \<and> (\<not> b2
     \<and> (b1 \<and> \<not> b0)))))) else (if b6 then (if b5 then (if b4 then (if b3 then
     (\<not> b2 \<and> (if b1 then \<not> b0 else True)) else True) else (b3 \<or> (b2
     \<or> (b1 \<or> b0)))) else (if b4 then (if b3 then (if b2 then (b1 \<and> b0) else
     (if b1 then \<not> b0 else True)) else True) else (b3 \<or> (b2 \<or> (b1 \<or>
     b0))))) else (b5 \<and> (b4 \<and> (if b3 then (\<not> b2 \<and> \<not> b1) else
     True)))))"
  by (cases b7; cases b6; cases b5; cases b4; cases b3; cases b2; cases b1; cases b0;
      simp add: is_word_def char_range_def)

lemma ascii_letter_bits [code]:
  "ascii_letter (Char b0 b1 b2 b3 b4 b5 b6 b7) =
     (\<not> b7 \<and> (b6 \<and> (if b5 then (if b4 then (if b3 then (\<not> b2 \<and> (if
     b1 then \<not> b0 else True)) else True) else (b3 \<or> (b2 \<or> (b1 \<or> b0))))
     else (if b4 then (if b3 then (\<not> b2 \<and> (if b1 then \<not> b0 else True)) else
     True) else (b3 \<or> (b2 \<or> (b1 \<or> b0)))))))"
  by (cases b7; cases b6; cases b5; cases b4; cases b3; cases b2; cases b1; cases b0;
      simp add: ascii_letter_def char_range_def)

lemma lower_char_bits [code]:
  "lower_char (Char b0 b1 b2 b3 b4 b5 b6 b7) =
     (if is_upper (Char b0 b1 b2 b3 b4 b5 b6 b7) then Char b0 b1 b2 b3 b4 True b6 b7
      else Char b0 b1 b2 b3 b4 b5 b6 b7)"
  by (cases b7; cases b6; cases b5; cases b4; cases b3; cases b2; cases b1; cases b0;
      simp add: lower_char_def is_upper_def char_range_def char_of_eq_iff)

text \<open>\<^verbatim>\<open>str.lower\<close>, \<^verbatim>\<open>str.strip\<close>, \<^verbatim>\<open>str.split\<close> on one separator character,
  \<^verbatim>\<open>str.startswith\<close>, the substring test \<^verbatim>\<open>v in s\<close> and \<^verbatim>\<open>str.isupper\<close>
  (no cased character is lower case and one is upper case).\<close>

definition lower :: "string \<Rightarrow> string" where
  "lower s = map lower_char s"

definition strip :: "string \<Rightarrow> string" where
  "strip s = rev (dropWhile is_space (rev (dropWhile is_space s)))"

fun split :: "char \<Rightarrow> string \<Rightarrow> string list" where
  "split sep [] = [[]]"
| "split sep (c # cs) =
     (if c = sep then [] # split sep cs
      else (case split sep cs of
              [] \<Rightarrow> [[c]]
            | part # parts \<Rightarrow> (c # part) # parts))"

fun startswith :: "string \<Rightarrow> string \<Rightarrow> bool" where
  "startswith s [] = True"
| "startswith [] (p # ps) = False"
| "startswith (c # cs) (p # ps) = (if c = p then startswith cs ps else False)"

fun contains :: "string \<Rightarrow> string \<Rightarrow> bool" where
  "contains [] v = (v = [])"
| "contains (c # cs) v = (if startswith (c # cs) v then True else contains cs v)"

definition isupper :: "string \<Rightarrow> bool" where
  "isupper s = (\<not> list_ex is_lower s \<and> list_ex is_upper s)"

text \<open>
  \<^verbatim>\<open>s.replace(old, new)\<close> for a non-empty \<^verbatim>\<open>old\<close>, the only use in the program: the
  counter skips the rest of an occurrence that has been replaced.
\<close>

fun replace_from :: "string \<Rightarrow> string \<Rightarrow> nat \<Rightarrow> string \<Rightarrow> string" where
  "replace_from old new k [] = []"
| "replace_from old new (Suc k) (c # cs) = replace_from old new k cs"
| "replace_from old new 0 (c # cs) =
     (if startswith (c # cs) old then new @ replace_from old new (length old - 1) cs
      else c # replace_from old new 0 cs)"

definition replace :: "string \<Rightarrow> string \<Rightarrow> string \<Rightarrow> string" where
  "replace s old new = replace_from old new 0 s"

text \<open>
  \<^verbatim>\<open>float(s)\<close> on the digit strings that the patterns capture with \<^verbatim>\<open>(\d+)\<close>; \<open>None\<close>
  stands for the \<^verbatim>\<open>ValueError\<close> that the program catches, which such a capture never
  raises.
\<close>

definition digit_value :: "char \<Rightarrow> nat" where
  "digit_value c = of_char c - 48"

definition py_float :: "string \<Rightarrow> rat option" where
  "py_float s =
     (if s \<noteq> [] \<and> list_all is_digit s
      then Some (of_nat (foldl (\<lambda>n c. 10 * n + digit_value c) 0 s))
      else None)"

section \<open>Regular expressions of the module \<^verbatim>\<open>re\<close>\<close>

text \<open>
  A pattern of the program is written as its syntax tree. Matching is backtracking search in
  the priority order of \<^verbatim>\<open>re\<close>: \<open>rmatch r st\<close> lists, best first, the states in which a
  match of \<open>r\<close> that starts in state \<open>st\<close> can end. A state holds the character before
  the position (for \<^verbatim>\<open>\b\<close>), the text from the position on, and the groups captured so
  far, in the order of their opening parentheses.

  \<^item> \<open>Cls p\<close>: one character of the class \<open>p\<close>; \<open>Str ic s\<close>: the literal \<open>s\<close>, under
    \<^verbatim>\<open>re.IGNORECASE\<close> when \<open>ic\<close> holds; \<open>WordB\<close>: \<^verbatim>\<open>\b\<close>; \<open>Eps\<close>: the empty pattern.
  \<^item> \<open>Seq\<close> and \<open>Alt\<close>: concatenation and \<^verbatim>\<open>|\<close>, the left alternative first.
  \<^item> \<open>Star p\<close> and \<open>LazyStar p\<close>: \<^verbatim>\<open>p*\<close> (longest first) and \<^verbatim>\<open>p*?\<close> (shortest first)
    for a class \<open>p\<close> of one character: every starred expression of the program's patterns
    is such a class.
  \<^item> \<open>Group r\<close>: a capturing group.
\<close>

datatype regex =
    Cls "char \<Rightarrow> bool"
  | Str bool string
  | WordB
  | Eps
  | Seq regex regex
  | Alt regex regex
  | Star "char \<Rightarrow> bool"
  | LazyStar "char \<Rightarrow> bool"
  | Group regex

type_synonym mstate = "char option \<times> string \<times> string list"

fun word_before :: "char option \<Rightarrow> bool" where
  "word_before None = False"
| "word_before (Some c) = is_word c"

fun word_after :: "string \<Rightarrow> bool" where
  "word_after [] = False"
| "word_after (c # cs) = is_word c"

fun match_str :: "bool \<Rightarrow> string \<Rightarrow> char option \<Rightarrow> string \<Rightarrow> (char option \<times> string) option" where
  "match_str ic [] prev rest = Some (prev, rest)"
| "match_str ic (p # ps) prev [] = None"
| "match_str ic (p # ps) prev (c # cs) =
     (if (if ic then lower_char c = lower_char p else c = p)
      then match_str ic ps (Some c) cs else None)"

text \<open>The end of a group that was opened with the text \<open>rest\<close> ahead: the group is the
  text that has been consumed since.\<close>

fun close_group :: "string \<Rightarrow> mstate \<Rightarrow> mstate" where
  "close_group rest (prev', rest', gs') =
     (prev', rest', gs' @ [take (length rest - length rest') rest])"

fun rmatch :: "regex \<Rightarrow> mstate \<Rightarrow> mstate list" where
  "rmatch (Cls p) (prev, [], gs) = []"
| "rmatch (Cls p) (prev, c # cs, gs) = (if p c then [(Some c, cs, gs)] else [])"
| "rmatch (Str ic s) (prev, rest, gs) =
     (case match_str ic s prev rest of
        None \<Rightarrow> []
      | Some (prev', rest') \<Rightarrow> [(prev', rest', gs)])"
| "rmatch WordB (prev, rest, gs) =
     (if word_before prev \<noteq> word_after rest then [(prev, rest, gs)] else [])"
| "rmatch Eps st = [st]"
| "rmatch (Seq r1 r2) st = concat (map (rmatch r2) (rmatch r1 st))"
| "rmatch (Alt r1 r2) st = rmatch r1 st @ rmatch r2 st"
| "rmatch (Star p) (prev, [], gs) = [(prev, [], gs)]"
| "rmatch (Star p) (prev, c # cs, gs) =
     (if p c then rmatch (Star p) (Some c, cs, gs) @ [(prev, c # cs, gs)]
      else [(prev, c # cs, gs)])"
| "rmatch (LazyStar p) (prev, [], gs) = [(prev, [], gs)]"
| "rmatch (LazyStar p) (prev, c # cs, gs) =
     (if p c then (prev, c # cs, gs) # rmatch (LazyStar p) (Some c, cs, gs)
      else [(prev, c # cs, gs)])"
| "rmatch (Group r) (prev, rest, gs) = map (close_group rest) (rmatch r (prev, rest, gs))"

text \<open>The derived forms \<^verbatim>\<open>r?\<close>, \<^verbatim>\<open>p+\<close>, one literal character, sequences and
  alternatives of several patterns, and the number of groups of a pattern.\<close>

definition Opt :: "regex \<Rightarrow> regex" where
  "Opt r = Alt r Eps"

definition Many :: "(char \<Rightarrow> bool) \<Rightarrow> regex" where
  "Many p = Seq (Cls p) (Star p)"

definition Chr :: "char \<Rightarrow> regex" where
  "Chr c = Cls (\<lambda>x. x = c)"

fun seqs :: "regex list \<Rightarrow> regex" where
  "seqs [] = Eps"
| "seqs [r] = r"
| "seqs (r # rs) = Seq r (seqs rs)"

fun alts :: "regex list \<Rightarrow> regex" where
  "alts [] = Eps"
| "alts [r] = r"
| "alts (r # rs) = Alt r (alts rs)"

fun ngroups :: "regex \<Rightarrow> nat" where
  "ngroups (Seq r1 r2) = ngroups r1 + ngroups r2"
| "ngroups (Alt r1 r2) = ngroups r1 + ngroups r2"
| "ngroups (Group r) = Suc (ngroups r)"
| "ngroups r = 0"

text \<open>
  The best match at one position, as the pair of the matched text (group 0) and the groups;
  \<^verbatim>\<open>re.search\<close> tries the positions from left to right.
\<close>

fun best_match :: "string \<Rightarrow> mstate list \<Rightarrow> (string \<times> string list) option" where
  "best_match rest [] = None"
| "best_match rest ((prev', rest', gs) # others) =
     Some (take (length rest - length rest') rest, gs)"

definition match_at :: "regex \<Rightarrow> char option \<Rightarrow> string \<Rightarrow> (string \<times> string list) option" where
  "match_at r prev rest = best_match rest (rmatch r (prev, rest, []))"

fun search_from :: "regex \<Rightarrow> char option \<Rightarrow> string \<Rightarrow> (string \<times> string list) option" where
  "search_from r prev [] = match_at r prev []"
| "search_from r prev (c # cs) =
     (case match_at r prev (c # cs) of
        Some m \<Rightarrow> Some m
      | None \<Rightarrow> search_from r (Some c) cs)"

definition re_search :: "regex \<Rightarrow> string \<Rightarrow> (string \<times> string list) option" where
  "re_search r text = search_from r None text"

text \<open>
  The scan behind \<^verbatim>\<open>re.findall\<close> and \<^verbatim>\<open>re.sub\<close>: the successive matches that do not
  overlap, from left to right, between the characters that no match covers. The counter skips
  the rest of a match that has been found. No pattern of the program matches the empty
  string; after an empty match the scan simply moves one character on.
\<close>

datatype piece = Plain char | Found string "string list"

fun scan :: "regex \<Rightarrow> char option \<Rightarrow> string \<Rightarrow> nat \<Rightarrow> piece list" where
  "scan r prev [] (Suc k) = []"
| "scan r prev [] 0 =
     (case match_at r prev [] of None \<Rightarrow> [] | Some (w, gs) \<Rightarrow> [Found w gs])"
| "scan r prev (c # cs) (Suc k) = scan r (Some c) cs k"
| "scan r prev (c # cs) 0 =
     (case match_at r prev (c # cs) of
        None \<Rightarrow> Plain c # scan r (Some c) cs 0
      | Some (w, gs) \<Rightarrow>
          Found w gs #
          (if w = [] then Plain c # scan r (Some c) cs 0
           else scan r (Some c) cs (length w - 1)))"

text \<open>
  \<^verbatim>\<open>re.findall\<close> returns the matched texts for a pattern without groups, the texts of the
  group for a pattern with one group, and tuples of the groups otherwise.
\<close>

datatype found = Text string | Tuple "string list"

text \<open>The first group of a match (every group of the program's patterns takes part in
  every match).\<close>

fun group1 :: "string list \<Rightarrow> string" where
  "group1 [] = []"
| "group1 (g # gs) = g"

fun found_of :: "nat \<Rightarrow> piece \<Rightarrow> found list" where
  "found_of n (Plain c) = []"
| "found_of n (Found w gs) =
     (if n = 0 then [Text w]
      else if n = 1 then [Text (group1 gs)]
      else [Tuple gs])"

definition re_findall :: "regex \<Rightarrow> string \<Rightarrow> found list" where
  "re_findall r text = concat (map (found_of (ngroups r)) (scan r None text 0))"

fun sub_piece :: "string \<Rightarrow> piece \<Rightarrow> string" where
  "sub_piece repl (Plain c) = [c]"
| "sub_piece repl (Found w gs) = repl"

definition re_sub :: "regex \<Rightarrow> string \<Rightarrow> string \<Rightarrow> string" where
  "re_sub r repl text = concat (map (sub_piece repl) (scan r None text 0))"

section \<open>Text extraction: class \<^verbatim>\<open>CVParser\<close>\<close>

text \<open>
  The libraries pdfplumber, PyPDF2, pdfminer and python-docx are not part of the program.
  They enter as a record: the four availability flags that the imports set, and what each
  library does with the file at a path. A call either raises or returns. For the two
  page-wise PDF readers the outcome is what \<^verbatim>\<open>extract_text()\<close> does page after page
  (it returns a string or \<^verbatim>\<open>None\<close>, or raises), unless opening the file raises; a
  document of python-docx gives the texts of its paragraphs and, table by table and row by
  row, of its cells. Printing is left out, and so are the exceptions that are no instance of
  \<^verbatim>\<open>Exception\<close>.
\<close>

datatype 'a attempt = Raised | Returned 'a

record docx_document =
  paragraphs :: "string attempt list"
  tables :: "string attempt list list list"

record libraries =
  PDFPLUMBER_AVAILABLE :: bool
  PYPDF2_AVAILABLE :: bool
  PDFMINER_AVAILABLE :: bool
  DOCX_AVAILABLE :: bool
  pdfplumber_pages :: "string \<Rightarrow> string option attempt list attempt"
  pypdf2_pages :: "string \<Rightarrow> string option attempt list attempt"
  pdfminer_extract :: "string \<Rightarrow> string attempt"
  docx_Document :: "string \<Rightarrow> docx_document attempt"

text \<open>
  The exceptions: the \<^verbatim>\<open>ValueError\<close> of \<^verbatim>\<open>extract_text\<close>, and the exception of a
  library call that raises (an instance of \<^verbatim>\<open>Exception\<close>).
\<close>

datatype error = ValueError string | LibraryError

text \<open>
  A block of statements ends in one of three ways: control goes on to the next statement,
  the function returns a value, or an exception leaves the block. Together with the value
  that the variable \<^verbatim>\<open>text\<close> has at that point, this is the outcome of the block.
  \<open>and_then\<close> runs a second block after a first one, and \<open>try_except\<close> is
  \<^verbatim>\<open>try: ... except Exception as e: print(...)\<close>: an exception of the block is caught and
  control goes on, with the text as the block left it.
\<close>

datatype flow = Continues | Returns string | Raises error

fun and_then :: "string \<times> flow \<Rightarrow> (string \<Rightarrow> string \<times> flow) \<Rightarrow> string \<times> flow" where
  "and_then (text, Continues) block = block text"
| "and_then (text, Returns result) block = (text, Returns result)"
| "and_then (text, Raises err) block = (text, Raises err)"

fun try_except :: "string \<times> flow \<Rightarrow> string \<times> flow" where
  "try_except (text, Raises err) = (text, Continues)"
| "try_except (text, Continues) = (text, Continues)"
| "try_except (text, Returns result) = (text, Returns result)"

text \<open>
  The value of a function whose body ends with \<^verbatim>\<open>return text\<close>: the body has returned
  before, or it returns the text now, or an exception has left it.
\<close>

fun return_text :: "string \<times> flow \<Rightarrow> error + string" where
  "return_text (text, Continues) = Inr text"
| "return_text (text, Returns result) = Inr result"
| "return_text (text, Raises err) = Inl err"

text \<open>
  The loop over the pages, \<^verbatim>\<open>if page_text: text += page_text + "\n"\<close>; a page whose
  \<^verbatim>\<open>extract_text()\<close> raises ends the loop with the exception.
\<close>

fun add_pages :: "string \<Rightarrow> string option attempt list \<Rightarrow> string \<times> flow" where
  "add_pages text [] = (text, Continues)"
| "add_pages text (Raised # pages) = (text, Raises LibraryError)"
| "add_pages text (Returned None # pages) = add_pages text pages"
| "add_pages text (Returned (Some page_text) # pages) =
     add_pages (if page_text \<noteq> [] then text @ page_text @ ''\<newline>'' else text) pages"

text \<open>
  Methods 1 and 2 of \<^verbatim>\<open>extract_text_from_pdf\<close>. The block under \<^verbatim>\<open>try\<close> opens the
  file, reads the pages, and returns the text when it is not blank
  (\<^verbatim>\<open>if text.strip(): return text\<close>); the method is this block under
  \<^verbatim>\<open>try ... except\<close> when the library is available, and nothing otherwise.
\<close>

definition read_pages :: "string option attempt list attempt \<Rightarrow> string \<Rightarrow> string \<times> flow" where
  "read_pages opened text =
     (case opened of
        Raised \<Rightarrow> (text, Raises LibraryError)
      | Returned pages \<Rightarrow>
          and_then (add_pages text pages)
            (\<lambda>text. if strip text \<noteq> [] then (text, Returns text) else (text, Continues)))"

definition page_method ::
  "bool \<Rightarrow> string option attempt list attempt \<Rightarrow> string \<Rightarrow> string \<times> flow" where
  "page_method available opened text =
     (if available then try_except (read_pages opened text) else (text, Continues))"

text \<open>Method 3: \<^verbatim>\<open>text = pdfminer_extract(file_path)\<close> and the same test.\<close>

definition read_miner :: "string attempt \<Rightarrow> string \<Rightarrow> string \<times> flow" where
  "read_miner extracted text =
     (case extracted of
        Raised \<Rightarrow> (text, Raises LibraryError)
      | Returned text' \<Rightarrow>
          if strip text' \<noteq> [] then (text', Returns text') else (text', Continues))"

definition miner_method :: "bool \<Rightarrow> string attempt \<Rightarrow> string \<Rightarrow> string \<times> flow" where
  "miner_method available extracted text =
     (if available then try_except (read_miner extracted text) else (text, Continues))"

text \<open>
  \<^verbatim>\<open>extract_text_from_pdf\<close>: the three methods one after the other, from the empty text,
  and \<^verbatim>\<open>return text\<close> at the end.
\<close>

definition extract_text_from_pdf :: "libraries \<Rightarrow> string \<Rightarrow> error + string" where
  "extract_text_from_pdf lib file_path =
     return_text
       (and_then
          (and_then
             (page_method (PDFPLUMBER_AVAILABLE lib) (pdfplumber_pages lib file_path) [])
             (page_method (PYPDF2_AVAILABLE lib) (pypdf2_pages lib file_path)))
          (miner_method (PDFMINER_AVAILABLE lib) (pdfminer_extract lib file_path)))"

text \<open>
  \<^verbatim>\<open>extract_text_from_docx\<close>: every paragraph text and then every cell text is followed by
  a newline; the reading stands under \<^verbatim>\<open>try ... except\<close>, and \<^verbatim>\<open>return text\<close> ends
  the function.
\<close>

fun add_texts :: "string \<Rightarrow> string attempt list \<Rightarrow> string \<times> flow" where
  "add_texts text [] = (text, Continues)"
| "add_texts text (Raised # items) = (text, Raises LibraryError)"
| "add_texts text (Returned item # items) = add_texts (text @ item @ ''\<newline>'') items"

definition read_docx :: "docx_document attempt \<Rightarrow> string \<Rightarrow> string \<times> flow" where
  "read_docx opened text =
     (case opened of
        Raised \<Rightarrow> (text, Raises LibraryError)
      | Returned doc \<Rightarrow>
          and_then (add_texts text (paragraphs doc))
            (\<lambda>text. add_texts text (concat (concat (tables doc)))))"

definition extract_text_from_docx :: "libraries \<Rightarrow> string \<Rightarrow> error + string" where
  "extract_text_from_docx lib file_path =
     return_text
       (if DOCX_AVAILABLE lib then try_except (read_docx (docx_Document lib file_path) [])
        else ([], Continues))"

definition extract_text :: "libraries \<Rightarrow> string \<Rightarrow> string \<Rightarrow> error + string" where
  "extract_text lib file_path file_extension =
     (let file_extension = lower file_extension in
      if file_extension = ''.pdf'' then extract_text_from_pdf lib file_path
      else if file_extension = ''.docx'' then extract_text_from_docx lib file_path
      else Inl (ValueError (''Unsupported file format: '' @ file_extension)))"

text \<open>\<^verbatim>\<open>clean_extracted_text\<close>, statement by statement.\<close>

definition special_char :: "char \<Rightarrow> bool" where
  "special_char c = (\<not> (is_word c \<or> is_space c \<or> c \<in> set ''.,:;!?@()-/''))"

definition clean_extracted_text :: "string \<Rightarrow> string" where
  "clean_extracted_text text =
     (if text = [] then []
      else
        let text = re_sub (Many is_space) '' '' text;
            text = re_sub (Cls special_char) '' '' text;
            text = replace (replace text [CHR 0x0D, CHR ''\<newline>''] ''\<newline>'')
                     [CHR 0x0D] ''\<newline>'';
            text = re_sub (seqs [Chr CHR ''\<newline>'', Star is_space, Chr CHR ''\<newline>''])
                     ''\<newline>\<newline>'' text
        in strip text)"

section \<open>Field extraction: class \<^verbatim>\<open>CVAnalyzer\<close>\<close>

subsection \<open>\<^verbatim>\<open>extract_skills\<close>\<close>

text \<open>The dictionary \<^verbatim>\<open>SKILL_KEYWORDS\<close>, in the order of its items.\<close>

definition SKILL_KEYWORDS :: "(string \<times> string list) list" where
  "SKILL_KEYWORDS =
    [(''python'', [''python'', ''python3'', ''python 3'', ''python programming'', ''django'',
                   ''flask'', ''fastapi'', ''pandas'', ''numpy'']),
     (''java'', [''java'', ''java programming'', ''spring'', ''spring boot'',
                 ''spring framework'', ''hibernate'', ''j2ee'']),
     (''javascript'', [''javascript'', ''js'', ''node.js'', ''nodejs'', ''react'', ''angular'',
                       ''vue'', ''typescript'', ''express.js'']),
     (''sql'', [''sql'', ''mysql'', ''postgresql'', ''postgres'', ''oracle'', ''sql server'',
                ''database'', ''mongodb'']),
     (''excel'', [''excel'', ''microsoft excel'', ''spreadsheet'', ''vlookup'', ''pivot table'']),
     (''ml'', [''machine learning'', ''ml'', ''ai'', ''artificial intelligence'',
               ''deep learning'', ''neural network'', ''tensorflow'', ''pytorch'']),
     (''data_analysis'', [''data analysis'', ''data analytics'', ''power bi'', ''tableau'',
                          ''data visualization'', ''business intelligence'']),
     (''web_development'', [''html'', ''css'', ''bootstrap'', ''web development'', ''frontend'',
                            ''backend'', ''full stack'']),
     (''cloud'', [''aws'', ''amazon web services'', ''azure'', ''google cloud'', ''gcp'',
                  ''cloud computing'', ''docker'', ''kubernetes'']),
     (''testing'', [''testing'', ''selenium'', ''junit'', ''testng'', ''automation testing'',
                    ''manual testing'']),
     (''devops'', [''devops'', ''ci/cd'', ''jenkins'', ''git'', ''github'', ''gitlab''])]"

text \<open>
  The pattern \<^verbatim>\<open>r'\b' + re.escape(variation) + r'\b'\<close>, searched with
  \<^verbatim>\<open>re.IGNORECASE\<close>.
\<close>

definition word_pattern :: "string \<Rightarrow> regex" where
  "word_pattern variation = seqs [WordB, Str True variation, WordB]"

text \<open>
  The inner loops \<^verbatim>\<open>for variation in variations\<close>, which stop at the first hit: by
  whole-word search in the text, and by the substring test in the text of a section.
\<close>

fun word_hit :: "string list \<Rightarrow> string \<Rightarrow> bool" where
  "word_hit [] text_lower = False"
| "word_hit (variation # variations) text_lower =
     (if re_search (word_pattern variation) text_lower \<noteq> None then True
      else word_hit variations text_lower)"

fun substring_hit :: "string list \<Rightarrow> string \<Rightarrow> bool" where
  "substring_hit [] skills_text = False"
| "substring_hit (variation # variations) skills_text =
     (if contains (lower skills_text) variation then True
      else substring_hit variations skills_text)"

text \<open>
  The outer loops \<^verbatim>\<open>for skill, variations in CVAnalyzer.SKILL_KEYWORDS.items()\<close>, with
  the test that finds a hit as a parameter; a skill is appended when it is not yet in
  \<^verbatim>\<open>found_skills\<close>.
\<close>

fun add_skills ::
  "(string list \<Rightarrow> string \<Rightarrow> bool) \<Rightarrow> (string \<times> string list) list \<Rightarrow> string \<Rightarrow> string list
     \<Rightarrow> string list" where
  "add_skills hit [] text found_skills = found_skills"
| "add_skills hit ((skill, variations) # items) text found_skills =
     add_skills hit items text
       (if hit variations text \<and> skill \<notin> set found_skills then found_skills @ [skill]
        else found_skills)"

text \<open>
  The tail \<^verbatim>\<open>[\s:]*(.*?)(?:\n\n|\n\w+:)\<close> of the section patterns (under
  \<^verbatim>\<open>re.DOTALL\<close> the dot is any character), and the three patterns of
  \<^verbatim>\<open>skill_contexts\<close>, searched with \<^verbatim>\<open>re.DOTALL | re.IGNORECASE\<close>.
\<close>

definition section_tail :: "regex list" where
  "section_tail =
     [Star (\<lambda>c. is_space c \<or> c = CHR '':''),
      Group (LazyStar (\<lambda>c. True)),
      Alt (Str True ''\<newline>\<newline>'')
          (seqs [Chr CHR ''\<newline>'', Many is_word, Chr CHR '':''])]"

definition skill_contexts :: "regex list" where
  "skill_contexts =
     [seqs ([Str True ''skill'', Opt (Str True ''s'')] @ section_tail),
      seqs ([Str True ''technical'', Star is_space, Str True ''skill'', Opt (Str True ''s'')]
            @ section_tail),
      seqs ([Str True ''expertise''] @ section_tail)]"

text \<open>
  The loop \<^verbatim>\<open>for pattern, search_text in skill_contexts\<close>; its body \<^verbatim>\<open>if match:\<close>
  takes the result of the search.
\<close>

fun section_skills :: "(string \<times> string list) option \<Rightarrow> string list \<Rightarrow> string list" where
  "section_skills None found_skills = found_skills"
| "section_skills (Some (whole, groups)) found_skills =
     add_skills substring_hit SKILL_KEYWORDS (group1 groups) found_skills"

fun add_section_skills :: "regex list \<Rightarrow> string \<Rightarrow> string list \<Rightarrow> string list" where
  "add_section_skills [] text_lower found_skills = found_skills"
| "add_section_skills (pattern # patterns) text_lower found_skills =
     add_section_skills patterns text_lower
       (section_skills (re_search pattern text_lower) found_skills)"

definition extract_skills :: "string \<Rightarrow> string list" where
  "extract_skills text =
     add_section_skills skill_contexts (lower text)
       (add_skills word_hit SKILL_KEYWORDS (lower text) [])"

subsection \<open>\<^verbatim>\<open>extract_experience\<close>\<close>

text \<open>
  \<^verbatim>\<open>EXPERIENCE_PATTERNS\<close>. Each pattern comes with the outcome of the test
  \<^verbatim>\<open>"months" in pattern\<close> on its source text, which holds for the last pattern only.
  Without \<^verbatim>\<open>re.DOTALL\<close> the dot is any character but the newline.

  \<^enum> \<^verbatim>\<open>(\d+)\s*(?:years?|yrs?)\s*(?:\+)?\s*experience\<close>
  \<^enum> \<^verbatim>\<open>experience.*?(\d+)\s*(?:years?|yrs?)\<close>
  \<^enum> \<^verbatim>\<open>(\d+)\+?\s*years?\<close>
  \<^enum> \<^verbatim>\<open>(\d+)\s*-\s*(\d+)\s*years?\<close>
  \<^enum> \<^verbatim>\<open>(\d+)\s*months?\<close>
\<close>

definition years_or_yrs :: regex where
  "years_or_yrs =
     Alt (Seq (Str False ''year'') (Opt (Str False ''s'')))
         (Seq (Str False ''yr'') (Opt (Str False ''s'')))"

definition EXPERIENCE_PATTERNS :: "(regex \<times> bool) list" where
  "EXPERIENCE_PATTERNS =
    [(seqs [Group (Many is_digit), Star is_space, years_or_yrs, Star is_space,
            Opt (Str False ''+''), Star is_space, Str False ''experience''], False),
     (seqs [Str False ''experience'', LazyStar (\<lambda>c. c \<noteq> CHR ''\<newline>''),
            Group (Many is_digit), Star is_space, years_or_yrs], False),
     (seqs [Group (Many is_digit), Opt (Str False ''+''), Star is_space,
            Str False ''year'', Opt (Str False ''s'')], False),
     (seqs [Group (Many is_digit), Star is_space, Str False ''-'', Star is_space,
            Group (Many is_digit), Star is_space, Str False ''year'', Opt (Str False ''s'')],
      False),
     (seqs [Group (Many is_digit), Star is_space, Str False ''month'', Opt (Str False ''s'')],
      True)]"

text \<open>
  The body of the first loop for one match: a tuple gives the mean of its two numbers, a
  string its number, divided by 12 for the months pattern. A \<^verbatim>\<open>ValueError\<close> skips the
  match.
\<close>

fun years_of_match :: "bool \<Rightarrow> found \<Rightarrow> rat list" where
  "years_of_match months (Tuple groups) =
     (case py_float (group1 groups) of
        None \<Rightarrow> []
      | Some min_years \<Rightarrow>
          (case (if length groups > 1 then py_float (groups ! 1) else Some min_years) of
             None \<Rightarrow> []
           | Some max_years \<Rightarrow> [(min_years + max_years) / 2]))"
| "years_of_match months (Text m) =
     (case py_float m of
        None \<Rightarrow> []
      | Some years \<Rightarrow> [if months then years / 12 else years])"

definition pattern_years :: "string \<Rightarrow> rat list" where
  "pattern_years text_lower =
     concat (map (\<lambda>(pattern, months).
                    concat (map (years_of_match months) (re_findall pattern text_lower)))
                 EXPERIENCE_PATTERNS)"

text \<open>
  \<^verbatim>\<open>date_patterns\<close>, searched with \<^verbatim>\<open>re.IGNORECASE\<close>: a pattern with two matches or
  more adds twice the number of its matches.

  \<^enum> \<^verbatim>\<open>(?:jan|...|dec)[a-z]*\s+\d{4}\s*(?:-|to)\s*(?:jan|...|dec)[a-z]*\s+\d{4}\<close>
  \<^enum> \<^verbatim>\<open>\d{1,2}/\d{4}\s*(?:-|to)\s*\d{1,2}/\d{4}\<close>
  \<^enum> \<^verbatim>\<open>\d{4}\s*(?:-|to)\s*\d{4}\<close>
\<close>

definition month_name :: regex where
  "month_name =
     alts (map (Str True) [''jan'', ''feb'', ''mar'', ''apr'', ''may'', ''jun'', ''jul'', ''aug'',
                           ''sep'', ''oct'', ''nov'', ''dec''])"

definition four_digits :: regex where
  "four_digits = seqs [Cls is_digit, Cls is_digit, Cls is_digit, Cls is_digit]"

definition dash_or_to :: regex where
  "dash_or_to = Alt (Str True ''-'') (Str True ''to'')"

definition date_patterns :: "regex list" where
  "date_patterns =
    [seqs [month_name, Star ascii_letter, Many is_space, four_digits, Star is_space,
           dash_or_to, Star is_space, month_name, Star ascii_letter, Many is_space,
           four_digits],
     seqs [Cls is_digit, Opt (Cls is_digit), Str True ''/'', four_digits, Star is_space,
           dash_or_to, Star is_space, Cls is_digit, Opt (Cls is_digit), Str True ''/'',
           four_digits],
     seqs [four_digits, Star is_space, dash_or_to, Star is_space, four_digits]]"

definition date_years :: "string \<Rightarrow> rat list" where
  "date_years text_lower =
     concat (map (\<lambda>pattern.
                    let matches = re_findall pattern text_lower
                    in if length matches \<ge> 2 then [of_nat (length matches * 2)] else [])
                 date_patterns)"

text \<open>
  The summary section, \<^verbatim>\<open>(?:summary|objective|profile)[\s:]*(.*?)(?:\n\n|\n\w+:)\<close> with
  \<^verbatim>\<open>re.DOTALL | re.IGNORECASE\<close>: every match of an experience pattern in the section
  adds the number of its string, or of the first component of its tuple.
\<close>

definition summary_pattern :: regex where
  "summary_pattern =
     seqs ([alts [Str True ''summary'', Str True ''objective'', Str True ''profile'']]
           @ section_tail)"

fun years_of_sub_match :: "found \<Rightarrow> rat list" where
  "years_of_sub_match (Tuple groups) =
     (case py_float (group1 groups) of None \<Rightarrow> [] | Some years \<Rightarrow> [years])"
| "years_of_sub_match (Text m) =
     (case py_float m of None \<Rightarrow> [] | Some years \<Rightarrow> [years])"

fun section_years :: "(string \<times> string list) option \<Rightarrow> rat list" where
  "section_years None = []"
| "section_years (Some (whole, groups)) =
     concat (map (\<lambda>(pattern, months).
                    concat (map years_of_sub_match (re_findall pattern (group1 groups))))
                 EXPERIENCE_PATTERNS)"

definition summary_years :: "string \<Rightarrow> rat list" where
  "summary_years text_lower = section_years (re_search summary_pattern text_lower)"

text \<open>The list \<^verbatim>\<open>years_found\<close> at the end of the function, and
  \<^verbatim>\<open>max(years_found) if years_found else 0.0\<close>.\<close>

definition years_found :: "string \<Rightarrow> rat list" where
  "years_found text =
     pattern_years (lower text) @ date_years (lower text) @ summary_years (lower text)"

definition extract_experience :: "string \<Rightarrow> rat" where
  "extract_experience text =
     (case years_found text of
        [] \<Rightarrow> 0
      | years # others \<Rightarrow> foldl (\<lambda>best y. if best < y then y else best) years others)"

subsection \<open>\<^verbatim>\<open>extract_name\<close> and \<^verbatim>\<open>extract_email\<close>\<close>

definition non_name_prefixes :: "string list" where
  "non_name_prefixes = [''curriculum vitae'', ''resume'', ''cv'', ''phone'', ''email'']"

text \<open>The loop \<^verbatim>\<open>for line in lines[:5]\<close>, which returns the first line that passes the
  tests, and the empty string when none does.\<close>

fun first_name_line :: "string list \<Rightarrow> string" where
  "first_name_line [] = []"
| "first_name_line (line # lines) =
     (let line = strip line in
      if line \<noteq> [] \<and> length line < 50
         \<and> re_search (Cls is_digit) line = None \<and> \<not> isupper line
         \<and> \<not> list_ex (startswith (lower line)) non_name_prefixes
      then line
      else first_name_line lines)"

definition extract_name :: "string \<Rightarrow> string" where
  "extract_name text = first_name_line (take 5 (split CHR ''\<newline>'' (strip text)))"

text \<open>The pattern \<^verbatim>\<open>\b[A-Za-z0-9._%+-]+@[A-Za-z0-9.-]+\.[A-Z|a-z]{2,}\b\<close>.\<close>

definition email_pattern :: regex where
  "email_pattern =
     seqs [WordB,
           Many (\<lambda>c. ascii_letter c \<or> is_digit c \<or> c \<in> set ''._%+-''),
           Chr CHR ''@'',
           Many (\<lambda>c. ascii_letter c \<or> is_digit c \<or> c \<in> set ''.-''),
           Chr CHR ''.'',
           Cls (\<lambda>c. ascii_letter c \<or> c = CHR ''|''),
           Many (\<lambda>c. ascii_letter c \<or> c = CHR ''|''),
           WordB]"

definition extract_email :: "string \<Rightarrow> string" where
  "extract_email text =
     (case re_search email_pattern text of
        None \<Rightarrow> []
      | Some (whole, groups) \<Rightarrow> whole)"

section \<open>Classifier: \<^verbatim>\<open>CVAnalyzer.categorize_candidate\<close>\<close>

text \<open>
  A rule is the pair of its \<^verbatim>\<open>'name'\<close> and its \<^verbatim>\<open>'condition'\<close>, a function of the skills
  list and the years of experience. The list keeps the order of \<^verbatim>\<open>category_rules\<close>.
\<close>

type_synonym category_rule = "string \<times> (string list \<Rightarrow> rat \<Rightarrow> bool)"

definition category_rules :: "category_rule list" where
  "category_rules =
    [(''Senior Python Developer'',
        \<lambda>s e. ''python'' \<in> set s \<and> e \<ge> 5 \<and> (''django'' \<in> set s \<or> ''flask'' \<in> set s)),
     (''Python Developer'',
        \<lambda>s e. ''python'' \<in> set s \<and> (''django'' \<in> set s \<or> ''flask'' \<in> set s)),
     (''Data Scientist'',
        \<lambda>s e. ''ml'' \<in> set s \<and> (''python'' \<in> set s \<or> ''r'' \<in> set s) \<and> e \<ge> 2),
     (''Data Analyst'',
        \<lambda>s e. (''excel'' \<in> set s \<and> ''sql'' \<in> set s) \<or> ''data_analysis'' \<in> set s),
     (''Senior Java Developer'',
        \<lambda>s e. ''java'' \<in> set s \<and> e \<ge> 5),
     (''Java Developer'',
        \<lambda>s e. ''java'' \<in> set s \<and> e \<ge> 1),
     (''Web Developer'',
        \<lambda>s e. ''web_development'' \<in> set s \<or> (''javascript'' \<in> set s \<and> ''html'' \<in> set s)),
     (''Full Stack Developer'',
        \<lambda>s e. (''python'' \<in> set s \<or> ''java'' \<in> set s \<or> ''javascript'' \<in> set s) \<and>
              (''web_development'' \<in> set s \<or> ''html'' \<in> set s) \<and> e \<ge> 2),
     (''ML Engineer'',
        \<lambda>s e. ''ml'' \<in> set s \<and> e \<ge> 2),
     (''Cloud Engineer'',
        \<lambda>s e. ''cloud'' \<in> set s \<and> e \<ge> 2),
     (''DevOps Engineer'',
        \<lambda>s e. ''devops'' \<in> set s \<and> e \<ge> 2)]"

text \<open>The loop \<^verbatim>\<open>for rule in category_rules\<close>, which returns at the first rule that holds.\<close>

fun first_rule :: "category_rule list \<Rightarrow> string list \<Rightarrow> rat \<Rightarrow> string option" where
  "first_rule [] s e = None"
| "first_rule (rule # rules) s e =
     (if snd rule s e then Some (fst rule) else first_rule rules s e)"

definition categorize_candidate :: "string list \<Rightarrow> rat \<Rightarrow> string" where
  "categorize_candidate skills experience_years =
     (case first_rule category_rules skills experience_years of
        Some name \<Rightarrow> name
      | None \<Rightarrow>
          if experience_years = 0 then ''Fresher''
          else if experience_years < 2 then ''Junior Developer''
          else if experience_years < 5 then ''Mid-Level Developer''
          else ''Senior Professional'')"

section \<open>The pipeline of \<^verbatim>\<open>process_cv\<close>\<close>

text \<open>
  Steps 1 to 4 of the view \<^verbatim>\<open>process_cv\<close>, as the values that the steps compute from
  the file: the text is extracted and cleaned; \<^verbatim>\<open>extracted_name\<close> and
  \<^verbatim>\<open>extracted_email\<close> come from the cleaned text (the view stores either in the candidate
  only when it is not empty and the candidate has no value of its own); when the text is not
  blank, \<^verbatim>\<open>skills\<close>, \<^verbatim>\<open>experience_years\<close> and \<^verbatim>\<open>category_name\<close> are computed from
  it, and otherwise the candidate gets no skills, 0 years and the category \<^verbatim>\<open>Unknown\<close>.
  The telephone number and the education, which feed no other field, are left out. An
  unsupported extension ends the view with its error.
\<close>

record cv_analysis =
  extracted_name :: string
  extracted_email :: string
  skills :: "string list"
  experience_years :: rat
  category_name :: string

definition process_cv :: "libraries \<Rightarrow> string \<Rightarrow> string \<Rightarrow> error + cv_analysis" where
  "process_cv lib file_path file_extension =
     (case extract_text lib file_path file_extension of
        Inl err \<Rightarrow> Inl err
      | Inr raw_text \<Rightarrow>
          if strip (clean_extracted_text raw_text) \<noteq> [] then
            Inr \<lparr>extracted_name = extract_name (clean_extracted_text raw_text),
                 extracted_email = extract_email (clean_extracted_text raw_text),
                 skills = extract_skills (clean_extracted_text raw_text),
                 experience_years = extract_experience (clean_extracted_text raw_text),
                 category_name =
                   categorize_candidate (extract_skills (clean_extracted_text raw_text))
                     (extract_experience (clean_extracted_text raw_text))\<rparr>
          else
            Inr \<lparr>extracted_name = extract_name (clean_extracted_text raw_text),
                 extracted_email = extract_email (clean_extracted_text raw_text),
                 skills = [], experience_years = 0, category_name = ''Unknown''\<rparr>)"

section \<open>Example inputs\<close>



text \<open>
  The document of the end-to-end example: three paragraphs and no table, read by a
  python-docx that is installed and does not fail (the PDF libraries play no part).
\<close>

definition john_smith_docx :: docx_document where
  "john_smith_docx =
     \<lparr>paragraphs = [Returned ''John Smith'', Returned ''john@x.com'',
                    Returned ''5 years experience with Python and Django''],
      tables = []\<rparr>"

definition john_smith_libraries :: libraries where
  "john_smith_libraries =
     \<lparr>PDFPLUMBER_AVAILABLE = False, PYPDF2_AVAILABLE = False, PDFMINER_AVAILABLE = False,
      DOCX_AVAILABLE = True,
      pdfplumber_pages = (\<lambda>path. Raised), pypdf2_pages = (\<lambda>path. Raised),
      pdfminer_extract = (\<lambda>path. Raised),
      docx_Document = (\<lambda>path. Returned john_smith_docx)\<rparr>"

section \<open>Properties of the classifier\<close>

lemma first_rule_index:
  "i < length rules \<Longrightarrow> snd (rules ! i) s e \<Longrightarrow> (\<forall>j<i. \<not> snd (rules ! j) s e)
     \<Longrightarrow> first_rule rules s e = Some (fst (rules ! i))"
proof (induction rules arbitrary: i)
  case Nil
  then show ?case by simp
next
  case (Cons rule rules)
  show ?case
  proof (cases i)
    case 0
    with Cons.prems show ?thesis by simp
  next
    case (Suc k)
    from Cons.prems(3) Suc have head: "\<not> snd rule s e" by auto
    from Cons.prems(3) Suc have earlier: "\<forall>j<k. \<not> snd (rules ! j) s e" by auto
    from Cons.prems(1,2) Suc have "k < length rules" "snd (rules ! k) s e" by auto
    then have "first_rule rules s e = Some (fst (rules ! k))"
      using earlier by (rule Cons.IH)
    with head Suc show ?thesis by simp
  qed
qed

lemma first_rule_none:
  "(\<forall>rule \<in> set rules. \<not> snd rule s e) \<Longrightarrow> first_rule rules s e = None"
  by (induction rules) auto

lemma first_rule_name:
  "first_rule rules s e = Some label \<Longrightarrow> label \<in> fst ` set rules"
  by (induction rules) (auto split: if_splits)

lemma category_rule_names_nonempty: "[] \<notin> fst ` set category_rules"
  by (simp add: category_rules_def)

text \<open>
  C3. The rules are tried in their fixed order and the name of the first rule whose
  condition holds is returned: a rule that holds while no earlier rule does decides the
  category. With the skills python and django the category is Senior Python Developer at
  6 years and Python Developer at 2 years; with excel and sql at 0 years it is Data
  Analyst, not the fallback Fresher.
\<close>

theorem categorize_candidate_first_match:
  "(\<forall>i < length category_rules.
      snd (category_rules ! i) s e \<and> (\<forall>j<i. \<not> snd (category_rules ! j) s e)
        \<longrightarrow> categorize_candidate s e = fst (category_rules ! i))
   \<and> categorize_candidate [''python'', ''django''] 6 = ''Senior Python Developer''
   \<and> categorize_candidate [''python'', ''django''] 2 = ''Python Developer''
   \<and> categorize_candidate [''excel'', ''sql''] 0 = ''Data Analyst''"
proof -
  have general: "\<forall>i < length category_rules.
      snd (category_rules ! i) s e \<and> (\<forall>j<i. \<not> snd (category_rules ! j) s e)
        \<longrightarrow> categorize_candidate s e = fst (category_rules ! i)"
    by (auto simp: categorize_candidate_def dest!: first_rule_index)
  have senior: "categorize_candidate [''python'', ''django''] 6 = ''Senior Python Developer''"
    by (simp add: categorize_candidate_def category_rules_def)
  have plain: "categorize_candidate [''python'', ''django''] 2 = ''Python Developer''"
    by (simp add: categorize_candidate_def category_rules_def)
  have analyst: "categorize_candidate [''excel'', ''sql''] 0 = ''Data Analyst''"
    by (simp add: categorize_candidate_def category_rules_def)
  from general senior plain analyst show ?thesis by blast
qed

theorem categorize_candidate_first_match_witness:
  "(3::nat) < length category_rules
   \<and> snd (category_rules ! 3) [''excel'', ''sql''] 0
   \<and> \<not> snd (category_rules ! 0) [''excel'', ''sql''] 0
   \<and> \<not> snd (category_rules ! 1) [''excel'', ''sql''] 0
   \<and> \<not> snd (category_rules ! 2) [''excel'', ''sql''] 0
   \<and> categorize_candidate [''excel'', ''sql''] 0 = fst (category_rules ! 3)
   \<and> fst (category_rules ! 3) = ''Data Analyst''"
proof -
  have len: "(3::nat) < length category_rules"
    by (simp add: category_rules_def)
  have holds: "snd (category_rules ! 3) [''excel'', ''sql''] 0"
    by (simp add: category_rules_def)
  have r0: "\<not> snd (category_rules ! 0) [''excel'', ''sql''] 0"
    and r1: "\<not> snd (category_rules ! 1) [''excel'', ''sql''] 0"
    and r2: "\<not> snd (category_rules ! 2) [''excel'', ''sql''] 0"
    by (simp_all add: category_rules_def)
  have earlier: "\<forall>j<3. \<not> snd (category_rules ! j) [''excel'', ''sql''] 0"
  proof (intro allI impI)
    fix j :: nat
    assume "j < 3"
    then consider "j = 0" | "j = 1" | "j = 2" by linarith
    then show "\<not> snd (category_rules ! j) [''excel'', ''sql''] 0"
      using r0 r1 r2 by cases simp_all
  qed
  have rule_name: "fst (category_rules ! 3) = ''Data Analyst''"
    by (simp add: category_rules_def)
  from categorize_candidate_first_match [of "[''excel'', ''sql'']" 0] len holds earlier
  have "categorize_candidate [''excel'', ''sql''] 0 = fst (category_rules ! 3)"
    by blast
  with len holds r0 r1 r2 rule_name show ?thesis by blast
qed

text \<open>
  C4. The classifier is total: for every skills list and every experience of at least 0
  years the category is a non-empty string; when no rule holds it is Fresher at 0 years,
  Junior Developer below 2, Mid-Level Developer from 2 to below 5, and Senior Professional
  from 5 on.
\<close>

theorem categorize_candidate_total:
  "0 \<le> e \<Longrightarrow>
     categorize_candidate s e \<noteq> []
     \<and> ((\<forall>rule \<in> set category_rules. \<not> snd rule s e) \<longrightarrow>
          categorize_candidate s e =
            (if e = 0 then ''Fresher''
             else if 0 < e \<and> e < 2 then ''Junior Developer''
             else if 2 \<le> e \<and> e < 5 then ''Mid-Level Developer''
             else ''Senior Professional''))"
proof
  assume nonneg: "0 \<le> e"
  show "categorize_candidate s e \<noteq> []"
  proof (cases "first_rule category_rules s e")
    case None
    then show ?thesis by (simp add: categorize_candidate_def)
  next
    case (Some label)
    then have "label \<in> fst ` set category_rules" by (rule first_rule_name)
    with category_rule_names_nonempty have "label \<noteq> []" by metis
    with Some show ?thesis by (simp add: categorize_candidate_def)
  qed
next
  assume nonneg: "0 \<le> e"
  show "(\<forall>rule \<in> set category_rules. \<not> snd rule s e) \<longrightarrow>
          categorize_candidate s e =
            (if e = 0 then ''Fresher''
             else if 0 < e \<and> e < 2 then ''Junior Developer''
             else if 2 \<le> e \<and> e < 5 then ''Mid-Level Developer''
             else ''Senior Professional'')"
  proof
    assume "\<forall>rule \<in> set category_rules. \<not> snd rule s e"
    then have "first_rule category_rules s e = None" by (rule first_rule_none)
    with nonneg show "categorize_candidate s e =
            (if e = 0 then ''Fresher''
             else if 0 < e \<and> e < 2 then ''Junior Developer''
             else if 2 \<le> e \<and> e < 5 then ''Mid-Level Developer''
             else ''Senior Professional'')"
      by (auto simp: categorize_candidate_def)
  qed
qed

theorem categorize_candidate_total_witness:
  "(0::rat) \<le> 10
   \<and> first_rule category_rules [] 10 = None
   \<and> categorize_candidate [] 10 \<noteq> []
   \<and> categorize_candidate [] 10 = ''Senior Professional''"
proof -
  have nonneg: "(0::rat) \<le> 10" by simp
  have none: "\<forall>rule \<in> set category_rules. \<not> snd rule [] 10"
    by (simp add: category_rules_def)
  have no_rule: "first_rule category_rules [] 10 = None"
    using none by (rule first_rule_none)
  from categorize_candidate_total [OF nonneg, of "[]"] none no_rule
  show ?thesis by simp
qed

section \<open>Properties of text extraction\<close>


lemma extract_text_docx:
  "lower ext = ''.docx'' \<Longrightarrow> extract_text lib file_path ext = extract_text_from_docx lib file_path"
  by (simp add: extract_text_def)





















section \<open>Properties of cleaning\<close>

text \<open>The characters of a substitution result come from the text or from the replacement.\<close>

lemma sub_piece_chars:
  "c \<in> set (concat (map (sub_piece repl) pieces)) \<Longrightarrow> Plain c \<in> set pieces \<or> c \<in> set repl"
proof (induction pieces)
  case Nil
  then show ?case by simp
next
  case (Cons piece pieces)
  then show ?case by (cases piece) auto
qed

lemma scan_plain_chars: "Plain c \<in> set (scan r prev t k) \<Longrightarrow> c \<in> set t"
proof (induction t arbitrary: prev k)
  case Nil
  then show ?case by (cases k) (auto split: option.splits)
next
  case (Cons x xs)
  show ?case
  proof (cases k)
    case (Suc j)
    with Cons.prems have "Plain c \<in> set (scan r (Some x) xs j)" by simp
    then have "c \<in> set xs" by (rule Cons.IH)
    then show ?thesis by simp
  next
    case 0
    with Cons.prems
    have "c = x \<or> (\<exists>j. Plain c \<in> set (scan r (Some x) xs j))"
      by (auto split: option.splits if_splits)
    with Cons.IH show ?thesis by auto
  qed
qed

lemma re_sub_chars: "set (re_sub r repl t) \<subseteq> set t \<union> set repl"
  unfolding re_sub_def using sub_piece_chars scan_plain_chars by fast

text \<open>A starred class always matches, and never gives text back.\<close>

lemma rmatch_Star_nonempty: "rmatch (Star p) (prev, rest, gs) \<noteq> []"
  by (induction rest arbitrary: prev) auto

lemma rmatch_Star_length:
  "(prev', rest', gs') \<in> set (rmatch (Star p) (prev, rest, gs)) \<Longrightarrow> length rest' \<le> length rest"
proof (induction rest arbitrary: prev)
  case Nil
  then show ?case by simp
next
  case (Cons c cs)
  show ?case
  proof (cases "p c")
    case True
    with Cons.prems
    have "(prev', rest', gs') \<in> set (rmatch (Star p) (Some c, cs, gs)) \<or> rest' = c # cs"
      by auto
    then show ?thesis
    proof
      assume "(prev', rest', gs') \<in> set (rmatch (Star p) (Some c, cs, gs))"
      then have "length rest' \<le> length cs" by (rule Cons.IH)
      then show ?thesis by simp
    next
      assume "rest' = c # cs"
      then show ?thesis by simp
    qed
  next
    case False
    with Cons.prems show ?thesis by simp
  qed
qed

text \<open>\<^verbatim>\<open>p+\<close> matches at a position exactly when the character there is in the class, and
  then the match is not empty.\<close>

lemma match_at_Many_end: "match_at (Many p) prev [] = None"
  by (simp add: match_at_def Many_def)

lemma match_at_Many_other: "\<not> p c \<Longrightarrow> match_at (Many p) prev (c # cs) = None"
  by (simp add: match_at_def Many_def)

lemma match_at_Many_hit:
  assumes "p c"
  shows "\<exists>w gs. match_at (Many p) prev (c # cs) = Some (w, gs) \<and> w \<noteq> []"
proof -
  obtain st others where results: "rmatch (Star p) (Some c, cs, []) = st # others"
    using rmatch_Star_nonempty [of p "Some c" cs "[]"] by (cases "rmatch (Star p) (Some c, cs, [])") auto
  obtain prev' rest' gs' where st: "st = (prev', rest', gs')" by (cases st)
  have "(prev', rest', gs') \<in> set (rmatch (Star p) (Some c, cs, []))"
    using results st by simp
  then have shorter: "length rest' \<le> length cs" by (rule rmatch_Star_length)
  have "match_at (Many p) prev (c # cs) = Some (take (Suc (length cs) - length rest') (c # cs), gs')"
    using assms results st by (simp add: match_at_def Many_def)
  moreover have "take (Suc (length cs) - length rest') (c # cs) \<noteq> []"
    using shorter by (simp add: Suc_diff_le)
  ultimately show ?thesis by blast
qed

lemma scan_Many_plain: "Plain c \<in> set (scan (Many p) prev t k) \<Longrightarrow> \<not> p c"
proof (induction t arbitrary: prev k)
  case Nil
  then show ?case by (cases k) (simp_all add: match_at_Many_end)
next
  case (Cons x xs)
  show ?case
  proof (cases k)
    case (Suc j)
    with Cons.prems have "Plain c \<in> set (scan (Many p) (Some x) xs j)" by simp
    then show ?thesis by (rule Cons.IH)
  next
    case 0
    show ?thesis
    proof (cases "p x")
      case False
      with Cons.prems 0
      have "c = x \<or> Plain c \<in> set (scan (Many p) (Some x) xs 0)"
        by (simp add: match_at_Many_other)
      with False Cons.IH show ?thesis by blast
    next
      case True
      then obtain w gs where "match_at (Many p) prev (x # xs) = Some (w, gs)" and "w \<noteq> []"
        using match_at_Many_hit by blast
      with Cons.prems 0
      have "Plain c \<in> set (scan (Many p) (Some x) xs (length w - 1))" by simp
      then show ?thesis by (rule Cons.IH)
    qed
  qed
qed

lemma collapse_leaves_spaces_only:
  assumes "c \<in> set (re_sub (Many is_space) '' '' t)"
  shows "\<not> is_space c \<or> c = CHR '' ''"
proof -
  from assms have "Plain c \<in> set (scan (Many is_space) None t 0) \<or> c \<in> set '' ''"
    unfolding re_sub_def by (rule sub_piece_chars)
  then show ?thesis
  proof
    assume "Plain c \<in> set (scan (Many is_space) None t 0)"
    then have "\<not> is_space c" by (rule scan_Many_plain)
    then show ?thesis by simp
  next
    assume "c \<in> set '' ''"
    then show ?thesis by simp
  qed
qed

text \<open>Where the first character of \<^verbatim>\<open>old\<close>, or of a pattern, does not occur, nothing is
  replaced.\<close>

lemma replace_absent: "x \<notin> set s \<Longrightarrow> replace s (x # xs) new = s"
  unfolding replace_def by (induction s) auto

lemma scan_first_char_absent:
  "x \<notin> set t \<Longrightarrow> scan (Seq (Chr x) r) prev t 0 = map Plain t"
  by (induction t arbitrary: prev) (auto simp: match_at_def Chr_def)

lemma re_sub_first_char_absent: "x \<notin> set t \<Longrightarrow> re_sub (Seq (Chr x) r) repl t = t"
  by (simp add: re_sub_def scan_first_char_absent comp_def)

lemma strip_chars: "set (strip s) \<subseteq> set s"
proof -
  have "set (dropWhile is_space (rev (dropWhile is_space s))) \<subseteq> set (rev (dropWhile is_space s))"
    by (meson set_dropWhileD subsetI)
  also have "\<dots> \<subseteq> set s"
    using set_dropWhileD by fastforce
  finally show ?thesis by (simp add: strip_def)
qed

lemma line_ends_are_space: "is_space CHR ''\<newline>''" "is_space (CHR 0x0D)"
  by (simp_all add: is_space_def char_range_def)

lemma clean_extracted_text_one_line: "CHR ''\<newline>'' \<notin> set (clean_extracted_text t)"
proof (cases "t = []")
  case True
  then show ?thesis by (simp add: clean_extracted_text_def)
next
  case False
  define t1 where "t1 = re_sub (Many is_space) '' '' t"
  define t2 where "t2 = re_sub (Cls special_char) '' '' t1"
  have t1: "CHR ''\<newline>'' \<notin> set t1" "CHR 0x0D \<notin> set t1"
    using collapse_leaves_spaces_only [of _ t] line_ends_are_space unfolding t1_def by auto
  have "set t2 \<subseteq> set t1 \<union> set '' ''"
    unfolding t2_def by (rule re_sub_chars)
  with t1 have t2: "CHR ''\<newline>'' \<notin> set t2" "CHR 0x0D \<notin> set t2" by auto
  have endings: "replace (replace t2 [CHR 0x0D, CHR ''\<newline>''] ''\<newline>'') [CHR 0x0D] ''\<newline>'' = t2"
    using t2 by (simp add: replace_absent)
  have blank_lines:
    "re_sub (seqs [Chr CHR ''\<newline>'', Star is_space, Chr CHR ''\<newline>'']) ''\<newline>\<newline>'' t2 = t2"
    using t2 by (simp add: re_sub_first_char_absent)
  have "clean_extracted_text t = strip t2"
    using False endings blank_lines
    by (simp add: clean_extracted_text_def Let_def t1_def t2_def)
  with strip_chars [of t2] t2 show ?thesis by auto
qed

text \<open>
  C6. The claim is that \<^verbatim>\<open>clean_extracted_text\<close> keeps the lines of a text and leaves
  exactly one blank line where there were two or more. The first substitution,
  \<^verbatim>\<open>re.sub(r'\s+', ' ', text)\<close>, has already turned every newline into a space when the
  statements under the comments \<^verbatim>\<open>Normalize line endings\<close> and
  \<^verbatim>\<open>Remove multiple consecutive newlines\<close> run: two lines that three newlines separate
  come out as one line, and no result of the function contains a newline at all.
\<close>

theorem clean_extracted_text_joins_lines:
  "clean_extracted_text ''a\<newline>\<newline>\<newline>b'' = ''a b''
   \<and> CHR ''\<newline>'' \<notin> set (clean_extracted_text t)"
proof -
  have "clean_extracted_text ''a\<newline>\<newline>\<newline>b'' = ''a b''" by code_simp
  with clean_extracted_text_one_line [of t] show ?thesis by simp
qed

text \<open>
  C8. The claim is that \<^verbatim>\<open>clean_extracted_text\<close> is idempotent. The special characters
  are replaced by spaces after the runs of white space have been collapsed (the statement
  under the comment \<^verbatim>\<open>Remove excessive whitespace\<close>), so a space next to a special
  character leaves two spaces, which a second application collapses.
\<close>

theorem clean_extracted_text_not_idempotent:
  "clean_extracted_text ''a #b'' = ''a  b''
   \<and> clean_extracted_text (clean_extracted_text ''a #b'') = ''a b''"
proof -
  have once: "clean_extracted_text ''a #b'' = ''a  b''" by code_simp
  have twice: "clean_extracted_text ''a  b'' = ''a b''" by code_simp
  from once twice show ?thesis by simp
qed

section \<open>Properties of skill extraction\<close>

lemma add_skills_subset:
  "set (add_skills hit items t found_skills) \<subseteq> set found_skills \<union> fst ` set items"
  by (induction hit items t found_skills rule: add_skills.induct) auto

lemma section_skills_subset:
  "set (section_skills found_match found_skills) \<subseteq> set found_skills \<union> fst ` set SKILL_KEYWORDS"
proof (cases found_match)
  case None
  then show ?thesis by simp
next
  case (Some m)
  obtain whole groups where "m = (whole, groups)" by (cases m)
  with Some show ?thesis by (simp add: add_skills_subset)
qed

lemma add_section_skills_subset:
  "set (add_section_skills patterns text_lower found_skills)
     \<subseteq> set found_skills \<union> fst ` set SKILL_KEYWORDS"
proof (induction patterns arbitrary: found_skills)
  case Nil
  then show ?case by simp
next
  case (Cons pattern patterns)
  have "set (add_section_skills (pattern # patterns) text_lower found_skills)
          \<subseteq> set (section_skills (re_search pattern text_lower) found_skills)
              \<union> fst ` set SKILL_KEYWORDS"
    using Cons.IH by simp
  with section_skills_subset [of "re_search pattern text_lower" found_skills]
  show ?case by blast
qed

lemma extract_skills_keys: "set (extract_skills t) \<subseteq> fst ` set SKILL_KEYWORDS"
proof -
  have "set (add_skills word_hit SKILL_KEYWORDS (lower t) []) \<subseteq> fst ` set SKILL_KEYWORDS"
    using add_skills_subset [of word_hit SKILL_KEYWORDS "lower t" "[]"] by simp
  with add_section_skills_subset
      [of skill_contexts "lower t" "add_skills word_hit SKILL_KEYWORDS (lower t) []"]
  show ?thesis by (auto simp: extract_skills_def)
qed

lemma skill_keys:
  "fst ` set SKILL_KEYWORDS =
     {''python'', ''java'', ''javascript'', ''sql'', ''excel'', ''ml'', ''data_analysis'',
      ''web_development'', ''cloud'', ''testing'', ''devops''}"
  by (simp add: SKILL_KEYWORDS_def)

lemma variations_are_no_keys:
  "''django'' \<notin> fst ` set SKILL_KEYWORDS"
  "''flask'' \<notin> fst ` set SKILL_KEYWORDS"
  "''html'' \<notin> fst ` set SKILL_KEYWORDS"
  unfolding skill_keys by simp_all

text \<open>
  C2. The claim is that a tag is reported only when one of its variations occurs as a whole
  word, also inside a skills section. The first loop matches with \<^verbatim>\<open>\b\<close> on both sides
  (comment: \<^verbatim>\<open>Use word boundaries to avoid partial matches\<close>); the loop over the section
  tests \<^verbatim>\<open>variation in skills_text.lower()\<close>, a substring test. In the section
  \<^verbatim>\<open>skills: javascripting\<close> no variation of java or javascript is a whole word, and both
  tags are reported. The sentence without a section gives java and javascript, as claimed.
\<close>

theorem extract_skills_section_substring:
  "extract_skills ''skills: javascripting\<newline>\<newline>'' = [''java'', ''javascript'']
   \<and> add_skills word_hit SKILL_KEYWORDS (lower ''skills: javascripting\<newline>\<newline>'') [] = []
   \<and> extract_skills ''I know Java and JavaScript'' = [''java'', ''javascript'']"
proof -
  have in_section: "extract_skills ''skills: javascripting\<newline>\<newline>'' = [''java'', ''javascript'']"
    by code_simp
  have words:
    "add_skills word_hit SKILL_KEYWORDS (lower ''skills: javascripting\<newline>\<newline>'') [] = []"
    by code_simp
  have sentence: "extract_skills ''I know Java and JavaScript'' = [''java'', ''javascript'']"
    by code_simp
  from in_section words sentence show ?thesis by simp
qed

text \<open>
  C10. Whatever the text and the experience, the category of the extracted skills is never
  Senior Python Developer, Python Developer or Full Stack Developer: the extracted skills
  are keys of \<^verbatim>\<open>SKILL_KEYWORDS\<close>, and django, flask and html are no keys, so the first
  two rules never hold, and when the eighth rule holds the seventh, which comes first,
  holds too.
\<close>

theorem categorize_extracted_skills_unreachable:
  "categorize_candidate (extract_skills t) e
     \<notin> {''Senior Python Developer'', ''Python Developer'', ''Full Stack Developer''}
   \<and> set (extract_skills t) \<subseteq> fst ` set SKILL_KEYWORDS
   \<and> ''django'' \<notin> fst ` set SKILL_KEYWORDS
   \<and> ''flask'' \<notin> fst ` set SKILL_KEYWORDS
   \<and> ''html'' \<notin> fst ` set SKILL_KEYWORDS
   \<and> \<not> snd (category_rules ! 0) (extract_skills t) e
   \<and> \<not> snd (category_rules ! 1) (extract_skills t) e
   \<and> (snd (category_rules ! 7) (extract_skills t) e
        \<longrightarrow> snd (category_rules ! 6) (extract_skills t) e)"
proof -
  have keys: "set (extract_skills t) \<subseteq> fst ` set SKILL_KEYWORDS"
    by (rule extract_skills_keys)
  with variations_are_no_keys
  have absent: "''django'' \<notin> set (extract_skills t)" "''flask'' \<notin> set (extract_skills t)"
    "''html'' \<notin> set (extract_skills t)"
    by blast+
  have never: "categorize_candidate (extract_skills t) e
     \<notin> {''Senior Python Developer'', ''Python Developer'', ''Full Stack Developer''}"
    using absent by (simp add: categorize_candidate_def category_rules_def)
  have first: "\<not> snd (category_rules ! 0) (extract_skills t) e"
    and second: "\<not> snd (category_rules ! 1) (extract_skills t) e"
    using absent by (simp_all add: category_rules_def)
  have eighth: "snd (category_rules ! 7) (extract_skills t) e
        \<longrightarrow> snd (category_rules ! 6) (extract_skills t) e"
    using absent by (simp add: category_rules_def)
  from never keys variations_are_no_keys first second eighth show ?thesis by blast
qed

theorem categorize_extracted_skills_unreachable_witness:
  "extract_skills ''python html'' = [''python'', ''web_development'']
   \<and> snd (category_rules ! 7) (extract_skills ''python html'') 3
   \<and> snd (category_rules ! 6) (extract_skills ''python html'') 3
   \<and> categorize_candidate (extract_skills ''python html'') 3 = ''Web Developer''"
proof -
  have found: "extract_skills ''python html'' = [''python'', ''web_development'']"
    by code_simp
  have eighth: "snd (category_rules ! 7) (extract_skills ''python html'') 3"
    by (simp add: found category_rules_def)
  with categorize_extracted_skills_unreachable [of "''python html''" 3]
  have seventh: "snd (category_rules ! 6) (extract_skills ''python html'') 3"
    by blast
  have "categorize_candidate (extract_skills ''python html'') 3 = ''Web Developer''"
    by (simp add: found categorize_candidate_def category_rules_def)
  with found eighth seventh show ?thesis by blast
qed

section \<open>Properties of experience extraction\<close>

lemma foldl_best_is_Max:
  "foldl (\<lambda>best y. if best < y then y else best) (y0::rat) ys = Max (set (y0 # ys))"
proof (induction ys arbitrary: y0)
  case Nil
  then show ?case by simp
next
  case (Cons z zs)
  have "foldl (\<lambda>best y. if best < y then y else best) y0 (z # zs)
          = foldl (\<lambda>best y. if best < y then y else best) (max y0 z) zs"
    by (simp add: max_def)
  also have "\<dots> = Max (set (max y0 z # zs))"
    by (rule Cons.IH)
  also have "\<dots> = Max (set (y0 # z # zs))"
    by (cases "zs = []") (simp_all add: max.assoc)
  finally show ?case .
qed

lemma extract_experience_is_Max:
  "extract_experience t = (if years_found t = [] then 0 else Max (set (years_found t)))"
proof (cases "years_found t")
  case Nil
  then show ?thesis by (simp add: extract_experience_def)
next
  case (Cons years others)
  then show ?thesis
    using foldl_best_is_Max [of years others] by (simp add: extract_experience_def)
qed

text \<open>
  C5. The claim is that a range contributes the mean of its two numbers, that the maximum
  of the candidates is returned, and that \<^verbatim>\<open>3-5 years\<close> gives 4.0. The maximum is
  returned, and the range pattern matches \<^verbatim>\<open>3-5 years\<close>: the branch under the comment
  \<^verbatim>\<open>Take average of range\<close> contributes the mean 4. But the pattern
  \<^verbatim>\<open>(\d+)\+?\s*years?\<close>, which stands before it in the list, matches \<^verbatim>\<open>5 years\<close>
  inside the range and contributes the upper end 5, so the result is 5 and the mean does not
  decide; \<^verbatim>\<open>1-2 years\<close> gives 2 in the same way. The inputs \<^verbatim>\<open>5+ years experience\<close>
  and \<^verbatim>\<open>24 months\<close> give 5 and 2, as claimed.
\<close>

theorem extract_experience_range_not_mean:
  "re_findall (fst (EXPERIENCE_PATTERNS ! 3)) ''3-5 years'' = [Tuple [''3'', ''5'']]
   \<and> years_of_match False (Tuple [''3'', ''5'']) = [4]
   \<and> re_findall (fst (EXPERIENCE_PATTERNS ! 2)) ''3-5 years'' = [Text ''5'']
   \<and> years_found ''3-5 years'' = [5, 4]
   \<and> extract_experience ''3-5 years'' = 5
   \<and> years_found ''1-2 years'' = [2, 3 / 2]
   \<and> extract_experience ''1-2 years'' = 2
   \<and> extract_experience t = (if years_found t = [] then 0 else Max (set (years_found t)))
   \<and> extract_experience ''5+ years experience'' = 5
   \<and> extract_experience ''24 months'' = 2"
proof -
  have range_match:
    "re_findall (fst (EXPERIENCE_PATTERNS ! 3)) ''3-5 years'' = [Tuple [''3'', ''5'']]"
    by code_simp
  have range_mean: "years_of_match False (Tuple [''3'', ''5'']) = [4]" by code_simp
  have upper_end: "re_findall (fst (EXPERIENCE_PATTERNS ! 2)) ''3-5 years'' = [Text ''5'']"
    by code_simp
  have range_found: "years_found ''3-5 years'' = [5, 4]" by code_simp
  have range_result: "extract_experience ''3-5 years'' = 5" by code_simp
  have small_found: "years_found ''1-2 years'' = [2, 3 / 2]" by code_simp
  have small_result: "extract_experience ''1-2 years'' = 2" by code_simp
  have plus: "extract_experience ''5+ years experience'' = 5" by code_simp
  have months: "extract_experience ''24 months'' = 2" by code_simp
  from range_match range_mean upper_end range_found range_result small_found small_result
    extract_experience_is_Max [of t] plus months
  show ?thesis by blast
qed

text \<open>
  C9. The claim is that every match of the months pattern contributes its number divided
  by 12, also in the summary section. The first loop divides
  (\<^verbatim>\<open>if "months" in pattern: years = years / 12\<close>); the loop over the summary section
  appends \<^verbatim>\<open>float(match_val)\<close> as it is. In a summary of \<^verbatim>\<open>24 months\<close> the section
  contributes 24, next to the 2 of the first loop, and 24 years are returned.
\<close>

theorem extract_experience_summary_months:
  "pattern_years (lower ''summary: 24 months\<newline>\<newline>'') = [2]
   \<and> summary_years (lower ''summary: 24 months\<newline>\<newline>'') = [24]
   \<and> years_found ''summary: 24 months\<newline>\<newline>'' = [2, 24]
   \<and> extract_experience ''summary: 24 months\<newline>\<newline>'' = 24"
proof -
  have first_loop: "pattern_years (lower ''summary: 24 months\<newline>\<newline>'') = [2]"
    by code_simp
  have summary: "summary_years (lower ''summary: 24 months\<newline>\<newline>'') = [24]"
    by code_simp
  have all_found: "years_found ''summary: 24 months\<newline>\<newline>'' = [2, 24]"
    by code_simp
  have result: "extract_experience ''summary: 24 months\<newline>\<newline>'' = 24"
    by code_simp
  from first_loop summary all_found result show ?thesis by simp
qed

section \<open>The end-to-end example\<close>

lemma john_smith_raw_text:
  assumes "DOCX_AVAILABLE lib" and "docx_Document lib file_path = Returned john_smith_docx"
    and "lower ext = ''.docx''"
  shows "extract_text lib file_path ext =
    Inr ''John Smith\<newline>john@x.com\<newline>5 years experience with Python and Django\<newline>''"
  using assms
  by (simp add: extract_text_docx extract_text_from_docx_def read_docx_def
        john_smith_docx_def)

lemma john_smith_cleaned:
  "clean_extracted_text
     ''John Smith\<newline>john@x.com\<newline>5 years experience with Python and Django\<newline>''
   = ''John Smith john@x.com 5 years experience with Python and Django''"
  by code_simp

lemma john_smith_not_blank:
  "strip ''John Smith john@x.com 5 years experience with Python and Django'' \<noteq> []"
  by code_simp

lemma john_smith_name:
  "extract_name ''John Smith john@x.com 5 years experience with Python and Django'' = []"
  by code_simp

lemma john_smith_email:
  "extract_email ''John Smith john@x.com 5 years experience with Python and Django''
     = ''john@x.com''"
  by code_simp

lemma john_smith_skills:
  "extract_skills ''John Smith john@x.com 5 years experience with Python and Django''
     = [''python'']"
  by code_simp

lemma john_smith_experience:
  "extract_experience ''John Smith john@x.com 5 years experience with Python and Django'' = 5"
  by code_simp

lemma john_smith_category: "categorize_candidate [''python''] 5 = ''Senior Professional''"
  by (simp add: categorize_candidate_def category_rules_def)

lemma john_smith_processed:
  assumes "DOCX_AVAILABLE lib" and "docx_Document lib file_path = Returned john_smith_docx"
    and "lower ext = ''.docx''"
  shows "process_cv lib file_path ext =
    Inr \<lparr>extracted_name = [], extracted_email = ''john@x.com'', skills = [''python''],
         experience_years = 5, category_name = ''Senior Professional''\<rparr>"
  using john_smith_raw_text [OF assms]
  by (simp add: process_cv_def john_smith_cleaned john_smith_not_blank john_smith_name
        john_smith_email john_smith_skills john_smith_experience john_smith_category)

lemma john_smith_libraries_read:
  "DOCX_AVAILABLE john_smith_libraries"
  "docx_Document john_smith_libraries ''cv.docx'' = Returned john_smith_docx"
  by (simp_all add: john_smith_libraries_def)

lemma lower_docx: "lower ''.docx'' = ''.docx''"
  by code_simp

text \<open>
  C1, as the claim states it, does not hold: for the document with the three paragraphs the
  pipeline does not give the name John Smith together with the skills python and django and
  the category Senior Python Developer.
\<close>

theorem process_cv_john_smith_counterexample:
  "\<not> (\<exists>c. process_cv john_smith_libraries ''cv.docx'' ''.docx'' = Inr c
          \<and> extracted_name c = ''John Smith'' \<and> extracted_email c = ''john@x.com''
          \<and> set (skills c) = {''python'', ''django''} \<and> experience_years c = 5
          \<and> category_name c = ''Senior Python Developer'')"
proof -
  have "process_cv john_smith_libraries ''cv.docx'' ''.docx'' =
    Inr \<lparr>extracted_name = [], extracted_email = ''john@x.com'', skills = [''python''],
         experience_years = 5, category_name = ''Senior Professional''\<rparr>"
    using john_smith_libraries_read lower_docx by (rule john_smith_processed)
  then show ?thesis by auto
qed

text \<open>
  C1, amended. For a DOCX file whose paragraphs are \<^verbatim>\<open>John Smith\<close>, \<^verbatim>\<open>john@x.com\<close> and
  \<^verbatim>\<open>5 years experience with Python and Django\<close>, the pipeline of \<^verbatim>\<open>process_cv\<close> gives
  the e-mail address \<^verbatim>\<open>john@x.com\<close>, the skills list with the one tag python (django is
  a variation of the tag python, not a tag) and 5 years of experience.
\<close>

theorem process_cv_john_smith:
  "DOCX_AVAILABLE lib \<Longrightarrow> docx_Document lib file_path = Returned john_smith_docx \<Longrightarrow>
   lower ext = ''.docx'' \<Longrightarrow>
     \<exists>c. process_cv lib file_path ext = Inr c
         \<and> extracted_email c = ''john@x.com'' \<and> skills c = [''python''] \<and> experience_years c = 5"
proof -
  assume "DOCX_AVAILABLE lib" and "docx_Document lib file_path = Returned john_smith_docx"
    and "lower ext = ''.docx''"
  then have "process_cv lib file_path ext =
    Inr \<lparr>extracted_name = [], extracted_email = ''john@x.com'', skills = [''python''],
         experience_years = 5, category_name = ''Senior Professional''\<rparr>"
    by (rule john_smith_processed)
  then show ?thesis by simp
qed

theorem process_cv_john_smith_witness:
  "DOCX_AVAILABLE john_smith_libraries
   \<and> docx_Document john_smith_libraries ''cv.docx'' = Returned john_smith_docx
   \<and> lower ''.docx'' = ''.docx''
   \<and> (\<exists>c. process_cv john_smith_libraries ''cv.docx'' ''.docx'' = Inr c
          \<and> extracted_email c = ''john@x.com'' \<and> skills c = [''python''] \<and> experience_years c = 5)"
  using process_cv_john_smith [OF john_smith_libraries_read lower_docx]
    john_smith_libraries_read lower_docx
  by blast

end
